theory Spec2Isabelle
  imports Complex_Main "HOL-Library.Log_Nat"
begin

section \<open>Python floats\<close>

text \<open>
  Every amount, balance and limit of the program is a Python \<^verbatim>\<open>float\<close>: an
  IEEE-754 binary64 number. The model keeps what the program can observe of one: a
  finite value, the two infinities and NaN. The console reads amounts with
  \<^verbatim>\<open>float(input(...))\<close>, which accepts \<^verbatim>\<open>"nan"\<close> and \<^verbatim>\<open>"inf"\<close>, so all four
  kinds reach the accounts.
  The two zeros are one value here: the program only compares, adds and subtracts, and
  \<^verbatim>\<open>-0.0 == 0.0\<close>. NaN payloads are not kept.
\<close>

datatype pyfloat = Finite real | PInf | NInf | NaN

text \<open>
  A finite float is kept as the real number it denotes. Every sum and difference the
  program computes is rounded to a binary64 number, so the model computes on the numbers
  the program computes on; a theorem about every \<open>Finite x\<close> covers them.
\<close>

text \<open>
  Rounding to the nearest binary64 number, ties to the even significand: a significand
  of 53 bits, the smallest exponent of a unit in the last place is \<open>-1074\<close>, and a
  rounded magnitude of \<open>2 ^ 1024\<close> or more overflows to an infinity.
\<close>

definition round_half_even :: "real \<Rightarrow> int" where
  "round_half_even q =
     (let f = \<lfloor>q\<rfloor>; d = q - of_int f
      in if d < 1 / 2 then f
         else if 1 / 2 < d then f + 1
         else if even f then f else f + 1)"

definition floor_log2 :: "real \<Rightarrow> int" where
  "floor_log2 a =
     (if 1 \<le> a then bitlen \<lfloor>a\<rfloor> - 1 else - bitlen (\<lceil>1 / a\<rceil> - 1))"

definition round64 :: "real \<Rightarrow> pyfloat" where
  "round64 x =
     (if x = 0 then Finite 0
      else let a = \<bar>x\<bar>;
               e = max (floor_log2 a - 52) (- 1074);
               r = of_int (round_half_even (a / 2 powi e)) * 2 powi e
           in if 2 ^ 1024 \<le> r then (if 0 < x then PInf else NInf)
              else Finite (sgn x * r))"

text \<open>
  Python's \<^verbatim>\<open>a <= b\<close> and \<^verbatim>\<open>a < b\<close>: every comparison with NaN is False.
\<close>

fun py_le :: "pyfloat \<Rightarrow> pyfloat \<Rightarrow> bool" where
  "py_le NaN _ = False"
| "py_le _ NaN = False"
| "py_le NInf _ = True"
| "py_le _ PInf = True"
| "py_le PInf _ = False"
| "py_le _ NInf = False"
| "py_le (Finite x) (Finite y) = (x \<le> y)"

fun py_lt :: "pyfloat \<Rightarrow> pyfloat \<Rightarrow> bool" where
  "py_lt NaN _ = False"
| "py_lt _ NaN = False"
| "py_lt PInf _ = False"
| "py_lt _ NInf = False"
| "py_lt NInf _ = True"
| "py_lt _ PInf = True"
| "py_lt (Finite x) (Finite y) = (x < y)"

text \<open>
  Python's \<^verbatim>\<open>a + b\<close> and \<^verbatim>\<open>a - b\<close> on floats: neither raises.
\<close>

fun py_add :: "pyfloat \<Rightarrow> pyfloat \<Rightarrow> pyfloat" where
  "py_add NaN _ = NaN"
| "py_add _ NaN = NaN"
| "py_add PInf NInf = NaN"
| "py_add NInf PInf = NaN"
| "py_add PInf _ = PInf"
| "py_add _ PInf = PInf"
| "py_add NInf _ = NInf"
| "py_add _ NInf = NInf"
| "py_add (Finite x) (Finite y) = round64 (x + y)"

fun py_sub :: "pyfloat \<Rightarrow> pyfloat \<Rightarrow> pyfloat" where
  "py_sub NaN _ = NaN"
| "py_sub _ NaN = NaN"
| "py_sub PInf PInf = NaN"
| "py_sub NInf NInf = NaN"
| "py_sub PInf _ = PInf"
| "py_sub _ NInf = PInf"
| "py_sub NInf _ = NInf"
| "py_sub _ PInf = NInf"
| "py_sub (Finite x) (Finite y) = round64 (x - y)"

text \<open>
  The operators of the source, so that the methods below read as they are written:
  \<open>a \<le> b\<close>, \<open>a < b\<close> (and \<open>b > a\<close>), \<open>a + b\<close>, \<open>a - b\<close>, and \<open>0\<close> for
  \<^verbatim>\<open>0.0\<close>.
  These are the syntactic classes only: no law of an order or of a group is assumed
  of floats, and none holds (\<open>NaN \<le> NaN\<close> is False).
\<close>

instantiation pyfloat :: "{zero, ord, plus, minus}"
begin

definition zero_pyfloat :: pyfloat where
  "zero_pyfloat = Finite 0"

definition less_eq_pyfloat :: "pyfloat \<Rightarrow> pyfloat \<Rightarrow> bool" where
  "less_eq_pyfloat = py_le"

definition less_pyfloat :: "pyfloat \<Rightarrow> pyfloat \<Rightarrow> bool" where
  "less_pyfloat = py_lt"

definition plus_pyfloat :: "pyfloat \<Rightarrow> pyfloat \<Rightarrow> pyfloat" where
  "plus_pyfloat = py_add"

definition minus_pyfloat :: "pyfloat \<Rightarrow> pyfloat \<Rightarrow> pyfloat" where
  "minus_pyfloat = py_sub"

instance ..

end


section \<open>Data model\<close>

text \<open>
  What \<^verbatim>\<open>print\<close> writes, one constructor for each message of the source (the text
  of a prompt of \<^verbatim>\<open>input\<close> is not recorded).
\<close>

datatype mensagem =
    ValorInformadoInvalido      \<comment> \<open>\<^verbatim>\<open>Operacao falhou! O valor informado e invalido.\<close>\<close>
  | SaldoInsuficiente           \<comment> \<open>\<^verbatim>\<open>Operacao falhou! Voce nao tem saldo suficiente.\<close>\<close>
  | SaqueRealizado              \<comment> \<open>\<^verbatim>\<open>Saque realizado com sucesso!\<close>\<close>
  | DepositoRealizado           \<comment> \<open>\<^verbatim>\<open>Deposito realizado com sucesso!\<close>\<close>
  | SaqueExcedeLimite           \<comment> \<open>\<^verbatim>\<open>Operacao falhou! O valor do saque excede o limite.\<close>\<close>
  | MaximoSaquesExcedido        \<comment> \<open>\<^verbatim>\<open>Operacao falhou! Numero maximo de saques excedido.\<close>\<close>
  | ClienteNaoPossuiConta       \<comment> \<open>\<^verbatim>\<open>Cliente nao possui conta!\<close>\<close>
  | ClienteNaoEncontrado        \<comment> \<open>\<^verbatim>\<open>Cliente nao encontrado!\<close>\<close>
  | ValorInvalido               \<comment> \<open>\<^verbatim>\<open>Valor invalido!\<close>\<close>
  | ExtratoCabecalho            \<comment> \<open>\<^verbatim>\<open>================ EXTRATO ================\<close>\<close>
  | SemMovimentacoes            \<comment> \<open>\<^verbatim>\<open>Nao foram realizadas movimentacoes.\<close>\<close>
  | ExtratoLinha string pyfloat string
      \<comment> \<open>one entry of the statement: its \<^verbatim>\<open>tipo\<close>, \<^verbatim>\<open>valor\<close> and \<^verbatim>\<open>data\<close>\<close>
  | ExtratoSaldo pyfloat        \<comment> \<open>\<^verbatim>\<open>Saldo: R$ ...\<close>\<close>
  | ExtratoRodape               \<comment> \<open>\<^verbatim>\<open>==========================================\<close>\<close>
  | JaExisteCliente             \<comment> \<open>\<^verbatim>\<open>Ja existe cliente com esse CPF!\<close>\<close>
  | ClienteCriado               \<comment> \<open>\<^verbatim>\<open>Cliente criado com sucesso!\<close>\<close>
  | ContaNaoCriada
      \<comment> \<open>\<^verbatim>\<open>Cliente nao encontrado, fluxo de criacao de conta encerrado!\<close>\<close>
  | ContaCriada                 \<comment> \<open>\<^verbatim>\<open>Conta criada com sucesso!\<close>\<close>
  | ListaSeparador              \<comment> \<open>\<^verbatim>\<open>"=" * 100\<close>\<close>
  | ListaConta string int string
      \<comment> \<open>\<^verbatim>\<open>str(conta)\<close> of a \<^verbatim>\<open>ContaCorrente\<close>: branch, number, holder's name\<close>
  | ListaObjeto                 \<comment> \<open>\<^verbatim>\<open>str(conta)\<close> of a plain \<^verbatim>\<open>Conta\<close>: the default of \<^verbatim>\<open>object\<close>\<close>
  | Obrigado                    \<comment> \<open>\<^verbatim>\<open>Obrigado por utilizar nosso sistema bancario!\<close>\<close>
  | OperacaoInvalida
      \<comment> \<open>\<^verbatim>\<open>Operacao invalida, por favor selecione novamente a operacao desejada.\<close>\<close>

text \<open>
  One entry of \<^verbatim>\<open>Historico._transacoes\<close>: the dict with the keys \<^verbatim>\<open>"tipo"\<close>,
  \<^verbatim>\<open>"valor"\<close> and \<^verbatim>\<open>"data"\<close>.
\<close>

record registro =
  tipo :: string
  valor :: pyfloat
  data :: string

record historico =
  transacoes :: "registro list"

text \<open>
  \<^verbatim>\<open>Conta\<close>, and \<^verbatim>\<open>ContaCorrente\<close> as its extension. The field \<open>cliente\<close> is the reference
  to the owner: the owner's position in the list of customers.
\<close>

record conta =
  saldo :: pyfloat
  numero :: int
  agencia :: string
  cliente :: nat
  historico :: historico

record conta_corrente = conta +
  limite :: pyfloat
  limite_saques :: int

text \<open>
  An account object with its class, for the calls the source dispatches on the class of
  the receiver (\<^verbatim>\<open>conta.sacar\<close> in \<^verbatim>\<open>Saque.registrar\<close>).
\<close>

datatype conta_obj = ObjConta conta | ObjContaCorrente conta_corrente

text \<open>\<^verbatim>\<open>Saque\<close> and \<^verbatim>\<open>Deposito\<close>, the two subclasses of \<^verbatim>\<open>Transacao\<close>.\<close>

datatype transacao = Saque pyfloat | Deposito pyfloat

fun Transacao_valor :: "transacao \<Rightarrow> pyfloat" where
  "Transacao_valor (Saque v) = v"
| "Transacao_valor (Deposito v) = v"

text \<open>\<^verbatim>\<open>transacao.__class__.__name__\<close>.\<close>

fun nome_da_classe :: "transacao \<Rightarrow> string" where
  "nome_da_classe (Saque _) = ''Saque''"
| "nome_da_classe (Deposito _) = ''Deposito''"


section \<open>Historico\<close>

definition Historico_init :: historico where
  "Historico_init = \<lparr>transacoes = []\<rparr>"

text \<open>
  \<^verbatim>\<open>adicionar_transacao\<close>; \<open>agora\<close> is what
  \<^verbatim>\<open>datetime.now().strftime("%d-%m-%Y %H:%M:%S")\<close> returns at the call.
\<close>

definition adicionar_transacao :: "historico \<Rightarrow> transacao \<Rightarrow> string \<Rightarrow> historico" where
  "adicionar_transacao h t agora =
     h\<lparr>transacoes := transacoes h @
        [\<lparr>tipo = nome_da_classe t, valor = Transacao_valor t, data = agora\<rparr>]\<rparr>"


section \<open>Conta\<close>

definition Conta_init :: "int \<Rightarrow> nat \<Rightarrow> conta" where
  "Conta_init n cli =
     \<lparr>saldo = 0, numero = n, agencia = ''0001'', cliente = cli, historico = Historico_init\<rparr>"

definition Conta_nova_conta :: "nat \<Rightarrow> int \<Rightarrow> conta" where
  "Conta_nova_conta cli n = Conta_init n cli"

text \<open>
  \<^verbatim>\<open>Conta.sacar\<close> and \<^verbatim>\<open>Conta.depositar\<close>: the value returned, the message printed and
  the account after the call. Both are inherited, so they are defined on every extension
  of \<open>conta\<close>.
\<close>

definition Conta_sacar ::
  "'a conta_scheme \<Rightarrow> pyfloat \<Rightarrow> bool \<times> mensagem \<times> 'a conta_scheme" where
  "Conta_sacar self v =
     (if v \<le> 0 then (False, ValorInformadoInvalido, self)
      else if v > saldo self then (False, SaldoInsuficiente, self)
      else (True, SaqueRealizado, self\<lparr>saldo := saldo self - v\<rparr>))"

definition Conta_depositar ::
  "'a conta_scheme \<Rightarrow> pyfloat \<Rightarrow> bool \<times> mensagem \<times> 'a conta_scheme" where
  "Conta_depositar self v =
     (if v \<le> 0 then (False, ValorInformadoInvalido, self)
      else (True, DepositoRealizado, self\<lparr>saldo := saldo self + v\<rparr>))"


section \<open>ContaCorrente\<close>

definition ContaCorrente_init :: "int \<Rightarrow> nat \<Rightarrow> pyfloat \<Rightarrow> int \<Rightarrow> conta_corrente" where
  "ContaCorrente_init n cli lmt lmt_saques =
     conta.extend (Conta_init n cli) \<lparr>limite = lmt, limite_saques = lmt_saques\<rparr>"

text \<open>The defaults of the constructor: \<^verbatim>\<open>limite=500.0\<close> and \<^verbatim>\<open>limite_saques=3\<close>.\<close>

definition limite_padrao :: pyfloat where
  "limite_padrao = Finite 500"

definition limite_saques_padrao :: int where
  "limite_saques_padrao = 3"

text \<open>\<^verbatim>\<open>nova_conta\<close> is inherited and calls \<^verbatim>\<open>cls(numero, cliente)\<close>: the defaults apply.\<close>

definition ContaCorrente_nova_conta :: "nat \<Rightarrow> int \<Rightarrow> conta_corrente" where
  "ContaCorrente_nova_conta cli n = ContaCorrente_init n cli limite_padrao limite_saques_padrao"

text \<open>The number of entries of the history whose \<^verbatim>\<open>"tipo"\<close> is \<^verbatim>\<open>Saque.__name__\<close>.\<close>

definition saques_realizados :: "'a conta_scheme \<Rightarrow> int" where
  "saques_realizados self =
     int (length (filter (\<lambda>t. tipo t = ''Saque'') (transacoes (historico self))))"

definition ContaCorrente_sacar ::
  "conta_corrente \<Rightarrow> pyfloat \<Rightarrow> bool \<times> mensagem \<times> conta_corrente" where
  "ContaCorrente_sacar self v =
     (if v > limite self then (False, SaqueExcedeLimite, self)
      else if saques_realizados self \<ge> limite_saques self
        then (False, MaximoSaquesExcedido, self)
      else Conta_sacar self v)"


section \<open>Calls on an account object\<close>

text \<open>
  \<^verbatim>\<open>conta.sacar(valor)\<close> runs the method of the receiver's class;
  \<^verbatim>\<open>conta.depositar(valor)\<close> is \<^verbatim>\<open>Conta.depositar\<close> for both classes, since
  \<^verbatim>\<open>ContaCorrente\<close> does not override it.
\<close>

fun chamar_sacar :: "conta_obj \<Rightarrow> pyfloat \<Rightarrow> bool \<times> mensagem \<times> conta_obj" where
  "chamar_sacar (ObjConta c) v =
     (case Conta_sacar c v of (ok, m, c') \<Rightarrow> (ok, m, ObjConta c'))"
| "chamar_sacar (ObjContaCorrente c) v =
     (case ContaCorrente_sacar c v of (ok, m, c') \<Rightarrow> (ok, m, ObjContaCorrente c'))"

fun chamar_depositar :: "conta_obj \<Rightarrow> pyfloat \<Rightarrow> bool \<times> mensagem \<times> conta_obj" where
  "chamar_depositar (ObjConta c) v =
     (case Conta_depositar c v of (ok, m, c') \<Rightarrow> (ok, m, ObjConta c'))"
| "chamar_depositar (ObjContaCorrente c) v =
     (case Conta_depositar c v of (ok, m, c') \<Rightarrow> (ok, m, ObjContaCorrente c'))"

text \<open>The properties \<^verbatim>\<open>saldo\<close>, \<^verbatim>\<open>numero\<close>, \<^verbatim>\<open>agencia\<close>, \<^verbatim>\<open>cliente\<close> and \<^verbatim>\<open>historico\<close>.\<close>

fun obj_saldo :: "conta_obj \<Rightarrow> pyfloat" where
  "obj_saldo (ObjConta c) = saldo c"
| "obj_saldo (ObjContaCorrente c) = saldo c"

fun obj_numero :: "conta_obj \<Rightarrow> int" where
  "obj_numero (ObjConta c) = numero c"
| "obj_numero (ObjContaCorrente c) = numero c"

fun obj_agencia :: "conta_obj \<Rightarrow> string" where
  "obj_agencia (ObjConta c) = agencia c"
| "obj_agencia (ObjContaCorrente c) = agencia c"

fun obj_cliente :: "conta_obj \<Rightarrow> nat" where
  "obj_cliente (ObjConta c) = cliente c"
| "obj_cliente (ObjContaCorrente c) = cliente c"

fun obj_historico :: "conta_obj \<Rightarrow> historico" where
  "obj_historico (ObjConta c) = historico c"
| "obj_historico (ObjContaCorrente c) = historico c"

text \<open>\<^verbatim>\<open>conta.historico.adicionar_transacao(t)\<close>: the history object of the account changes.\<close>

fun obj_adicionar_transacao :: "conta_obj \<Rightarrow> transacao \<Rightarrow> string \<Rightarrow> conta_obj" where
  "obj_adicionar_transacao (ObjConta c) t agora =
     ObjConta (c\<lparr>historico := adicionar_transacao (historico c) t agora\<rparr>)"
| "obj_adicionar_transacao (ObjContaCorrente c) t agora =
     ObjContaCorrente (c\<lparr>historico := adicionar_transacao (historico c) t agora\<rparr>)"


section \<open>Saque and Deposito\<close>

text \<open>
  \<^verbatim>\<open>Saque.registrar\<close> and \<^verbatim>\<open>Deposito.registrar\<close>: the message the account printed and the
  account after the call. Neither returns a value.
\<close>

fun registrar :: "transacao \<Rightarrow> conta_obj \<Rightarrow> string \<Rightarrow> mensagem \<times> conta_obj" where
  "registrar (Saque v) c agora =
     (case chamar_sacar c v of
        (ok, m, c') \<Rightarrow>
          if ok then (m, obj_adicionar_transacao c' (Saque v) agora) else (m, c'))"
| "registrar (Deposito v) c agora =
     (case chamar_depositar c v of
        (ok, m, c') \<Rightarrow>
          if ok then (m, obj_adicionar_transacao c' (Deposito v) agora) else (m, c'))"


section \<open>Cliente and PessoaFisica\<close>

text \<open>
  \<open>contas\<close> holds references to account objects: each is the position of the account in
  the list of all accounts (every account the program creates is appended to that list
  and none is ever removed, so a position names one object for the whole run).
\<close>

record cliente =
  endereco :: string
  contas :: "nat list"

record pessoa_fisica = cliente +
  nome :: string
  data_nascimento :: string
  cpf :: string

definition Cliente_init :: "string \<Rightarrow> cliente" where
  "Cliente_init ender = \<lparr>endereco = ender, contas = []\<rparr>"

definition PessoaFisica_init :: "string \<Rightarrow> string \<Rightarrow> string \<Rightarrow> string \<Rightarrow> pessoa_fisica" where
  "PessoaFisica_init nm dt c ender =
     cliente.extend (Cliente_init ender) \<lparr>nome = nm, data_nascimento = dt, cpf = c\<rparr>"

definition realizar_transacao ::
  "'a cliente_scheme \<Rightarrow> conta_obj \<Rightarrow> transacao \<Rightarrow> string \<Rightarrow> mensagem \<times> conta_obj" where
  "realizar_transacao self c t agora = registrar t c agora"

definition adicionar_conta :: "'a cliente_scheme \<Rightarrow> nat \<Rightarrow> 'a cliente_scheme" where
  "adicionar_conta self r = self\<lparr>contas := contas self @ [r]\<rparr>"


section \<open>The console session\<close>

text \<open>
  The two lists of \<^verbatim>\<open>main\<close>. \<open>main_contas\<close> is also the store of the account objects:
  a reference held by a customer is a position in it. In the same way the field
  \<open>cliente\<close> of an account is a position in \<open>main_clientes\<close>.
\<close>

record sessao =
  main_clientes :: "pessoa_fisica list"
  main_contas :: "conta_obj list"

text \<open>
  \<^verbatim>\<open>filtrar_cliente\<close>: the first customer with that CPF, as a reference, or \<open>None\<close>.
\<close>

fun filtrar_cliente :: "string \<Rightarrow> pessoa_fisica list \<Rightarrow> nat option" where
  "filtrar_cliente c [] = None"
| "filtrar_cliente c (x # xs) =
     (if cpf x = c then Some 0 else map_option Suc (filtrar_cliente c xs))"

definition recuperar_conta_cliente :: "'a cliente_scheme \<Rightarrow> mensagem list \<times> nat option" where
  "recuperar_conta_cliente cli =
     (case contas cli of
        [] \<Rightarrow> ([ClienteNaoPossuiConta], None)
      | r # _ \<Rightarrow> ([], Some r))"

text \<open>
  The functions of the menu. What a function reads with \<^verbatim>\<open>input\<close> is an argument, in
  the order of the reads; an argument that a run does not get to read is not used on
  that branch. \<open>valor_lido\<close> is the outcome of \<^verbatim>\<open>float(input(...))\<close>: \<open>None\<close> when it
  raises \<^verbatim>\<open>ValueError\<close>. Each function returns what it printed and the session after it.
\<close>

definition depositar ::
  "sessao \<Rightarrow> string \<Rightarrow> pyfloat option \<Rightarrow> string \<Rightarrow> mensagem list \<times> sessao" where
  "depositar s cpf_lido valor_lido agora =
     (case filtrar_cliente cpf_lido (main_clientes s) of
        None \<Rightarrow> ([ClienteNaoEncontrado], s)
      | Some i \<Rightarrow>
          (case valor_lido of
             None \<Rightarrow> ([ValorInvalido], s)
           | Some v \<Rightarrow>
               (case recuperar_conta_cliente (main_clientes s ! i) of
                  (out, None) \<Rightarrow> (out, s)
                | (out, Some r) \<Rightarrow>
                    (case realizar_transacao (main_clientes s ! i) (main_contas s ! r)
                            (Deposito v) agora of
                       (m, c') \<Rightarrow> (out @ [m], s\<lparr>main_contas := (main_contas s)[r := c']\<rparr>)))))"

definition sacar ::
  "sessao \<Rightarrow> string \<Rightarrow> pyfloat option \<Rightarrow> string \<Rightarrow> mensagem list \<times> sessao" where
  "sacar s cpf_lido valor_lido agora =
     (case filtrar_cliente cpf_lido (main_clientes s) of
        None \<Rightarrow> ([ClienteNaoEncontrado], s)
      | Some i \<Rightarrow>
          (case valor_lido of
             None \<Rightarrow> ([ValorInvalido], s)
           | Some v \<Rightarrow>
               (case recuperar_conta_cliente (main_clientes s ! i) of
                  (out, None) \<Rightarrow> (out, s)
                | (out, Some r) \<Rightarrow>
                    (case realizar_transacao (main_clientes s ! i) (main_contas s ! r)
                            (Saque v) agora of
                       (m, c') \<Rightarrow> (out @ [m], s\<lparr>main_contas := (main_contas s)[r := c']\<rparr>)))))"

definition exibir_extrato :: "sessao \<Rightarrow> string \<Rightarrow> mensagem list \<times> sessao" where
  "exibir_extrato s cpf_lido =
     (case filtrar_cliente cpf_lido (main_clientes s) of
        None \<Rightarrow> ([ClienteNaoEncontrado], s)
      | Some i \<Rightarrow>
          (case recuperar_conta_cliente (main_clientes s ! i) of
             (out, None) \<Rightarrow> (out, s)
           | (out, Some r) \<Rightarrow>
               (let c = main_contas s ! r; ts = transacoes (obj_historico c)
                in (out @ [ExtratoCabecalho]
                      @ (if ts = [] then [SemMovimentacoes]
                         else map (\<lambda>t. ExtratoLinha (tipo t) (valor t) (data t)) ts)
                      @ [ExtratoSaldo (obj_saldo c), ExtratoRodape],
                    s))))"

definition criar_cliente ::
  "sessao \<Rightarrow> string \<Rightarrow> string \<Rightarrow> string \<Rightarrow> string \<Rightarrow> mensagem list \<times> sessao" where
  "criar_cliente s cpf_lido nome_lido data_lida endereco_lido =
     (case filtrar_cliente cpf_lido (main_clientes s) of
        Some i \<Rightarrow> ([JaExisteCliente], s)
      | None \<Rightarrow>
          ([ClienteCriado],
           s\<lparr>main_clientes := main_clientes s @
               [PessoaFisica_init nome_lido data_lida cpf_lido endereco_lido]\<rparr>))"

text \<open>
  \<^verbatim>\<open>criar_conta\<close>: the new object goes to the end of the list of accounts, so its
  reference is the length of the list before the call.
\<close>

definition criar_conta :: "int \<Rightarrow> sessao \<Rightarrow> string \<Rightarrow> mensagem list \<times> sessao" where
  "criar_conta numero_conta s cpf_lido =
     (case filtrar_cliente cpf_lido (main_clientes s) of
        None \<Rightarrow> ([ContaNaoCriada], s)
      | Some i \<Rightarrow>
          (let c = ObjContaCorrente (ContaCorrente_nova_conta i numero_conta);
               r = length (main_contas s)
           in ([ContaCriada],
               s\<lparr>main_contas := main_contas s @ [c],
                 main_clientes :=
                   (main_clientes s)[i := adicionar_conta (main_clientes s ! i) r]\<rparr>)))"

text \<open>\<^verbatim>\<open>str(conta)\<close>: \<^verbatim>\<open>ContaCorrente.__str__\<close> reads the name of the holder.\<close>

fun conta_str :: "pessoa_fisica list \<Rightarrow> conta_obj \<Rightarrow> mensagem" where
  "conta_str cs (ObjConta c) = ListaObjeto"
| "conta_str cs (ObjContaCorrente c) = ListaConta (agencia c) (numero c) (nome (cs ! cliente c))"

definition listar_contas :: "sessao \<Rightarrow> mensagem list \<times> sessao" where
  "listar_contas s =
     (concat (map (\<lambda>c. [ListaSeparador, conta_str (main_clientes s) c]) (main_contas s)), s)"

text \<open>
  What one turn of the loop of \<^verbatim>\<open>main\<close> reads: the option of the menu, then the lines
  its function asks for, and the clock when a transaction is recorded.
\<close>

record leitura =
  opcao :: string
  cpf_lido :: string
  valor_lido :: "pyfloat option"
  nome_lido :: string
  data_nascimento_lida :: string
  endereco_lido :: string
  agora :: string

text \<open>One turn of the loop: whether the loop goes on, what was printed, the session.\<close>

definition main_passo :: "sessao \<Rightarrow> leitura \<Rightarrow> bool \<times> mensagem list \<times> sessao" where
  "main_passo s l =
     (if opcao l = ''d'' then (True, depositar s (cpf_lido l) (valor_lido l) (agora l))
      else if opcao l = ''s'' then (True, sacar s (cpf_lido l) (valor_lido l) (agora l))
      else if opcao l = ''e'' then (True, exibir_extrato s (cpf_lido l))
      else if opcao l = ''nu'' then
        (True, criar_cliente s (cpf_lido l) (nome_lido l) (data_nascimento_lida l)
                 (endereco_lido l))
      else if opcao l = ''nc'' then
        (let numero_conta = int (length (main_contas s)) + 1
         in (True, criar_conta numero_conta s (cpf_lido l)))
      else if opcao l = ''lc'' then (True, listar_contas s)
      else if opcao l = ''q'' then (False, [Obrigado], s)
      else (True, [OperacaoInvalida], s))"

text \<open>
  The loop, over the turns the operator types. It stops at \<^verbatim>\<open>q\<close>; when the input ends
  before that, the result is the session reached so far.
\<close>

fun main_loop :: "sessao \<Rightarrow> leitura list \<Rightarrow> mensagem list \<times> sessao" where
  "main_loop s [] = ([], s)"
| "main_loop s (l # ls) =
     (case main_passo s l of
        (continua, out, s') \<Rightarrow>
          if continua then (case main_loop s' ls of (out', s'') \<Rightarrow> (out @ out', s''))
          else (out, s'))"

definition sessao_inicial :: sessao where
  "sessao_inicial = \<lparr>main_clientes = [], main_contas = []\<rparr>"

definition main :: "leitura list \<Rightarrow> mensagem list \<times> sessao" where
  "main ls = main_loop sessao_inicial ls"

section \<open>Scenarios and invariants\<close>

text \<open>
  The scenario of the specification: on a new checking account with the defaults, a
  deposit of 1000 and three withdrawals of 200, each through \<open>registrar\<close>; and the account
  that the scenario is expected to leave.
\<close>

definition cenario_transacoes :: "transacao list" where
  "cenario_transacoes =
     [Deposito (Finite 1000), Saque (Finite 200), Saque (Finite 200), Saque (Finite 200)]"

definition cenario_conta :: conta_obj where
  "cenario_conta =
     fold (\<lambda>t c. snd (registrar t c ''03-11-2026 10:00:00'')) cenario_transacoes
       (ObjContaCorrente (ContaCorrente_nova_conta 0 1))"

definition conta_apos_cenario :: conta_corrente where
  "conta_apos_cenario =
     \<lparr>saldo = Finite 400, numero = 1, agencia = ''0001'', cliente = 0,
      historico = \<lparr>transacoes =
        [\<lparr>tipo = ''Deposito'', valor = Finite 1000, data = ''03-11-2026 10:00:00''\<rparr>,
         \<lparr>tipo = ''Saque'', valor = Finite 200, data = ''03-11-2026 10:00:00''\<rparr>,
         \<lparr>tipo = ''Saque'', valor = Finite 200, data = ''03-11-2026 10:00:00''\<rparr>,
         \<lparr>tipo = ''Saque'', valor = Finite 200, data = ''03-11-2026 10:00:00''\<rparr>]\<rparr>,
      limite = Finite 500, limite_saques = 3\<rparr>"


definition conta_saldo_grande :: conta where
  "conta_saldo_grande = (Conta_init 1 0)\<lparr>saldo := Finite 10000000000000000\<rparr>"

text \<open>A run of deposits on one account, each with the clock of its call.\<close>

definition depositar_todos :: "(pyfloat \<times> string) list \<Rightarrow> conta_obj \<Rightarrow> conta_obj" where
  "depositar_todos ds c = fold (\<lambda>(v, hora) a. snd (registrar (Deposito v) a hora)) ds c"

text \<open>A session with one customer and no account.\<close>

definition sessao_com_ana :: sessao where
  "sessao_com_ana =
     \<lparr>main_clientes = [PessoaFisica_init ''Ana'' ''01-01-1990'' ''111'' ''Rua A, 1''],
      main_contas = []\<rparr>"

text \<open>
  The numbers of the accounts of a session, in the order of the list, and the invariant of
  the loop of \<^verbatim>\<open>main\<close>: the account at position \<open>i\<close> (from 0) has the number \<open>i + 1\<close>.
\<close>

definition numeros :: "sessao \<Rightarrow> int list" where
  "numeros s = map obj_numero (main_contas s)"

definition numeros_em_sequencia :: "sessao \<Rightarrow> bool" where
  "numeros_em_sequencia s \<longleftrightarrow> numeros s = map int [1..<Suc (length (main_contas s))]"

text \<open>
  The references of a session are in range: every reference to an account that a customer
  holds is a position of \<open>main_contas\<close>, and the owner of every account is a position
  of \<open>main_clientes\<close>.
\<close>

definition sessao_bem_formada :: "sessao \<Rightarrow> bool" where
  "sessao_bem_formada s \<longleftrightarrow>
     (\<forall>p \<in> set (main_clientes s). \<forall>r \<in> set (contas p). r < length (main_contas s)) \<and>
     (\<forall>c \<in> set (main_contas s). obj_cliente c < length (main_clientes s))"

text \<open>
  A run of the console: a customer is registered, an account is opened for her, and
  \<^verbatim>\<open>nan\<close> is typed as the amount of a deposit (\<^verbatim>\<open>float("nan")\<close> does not raise).
\<close>

definition leitura_vazia :: leitura where
  "leitura_vazia =
     \<lparr>opcao = '''', cpf_lido = '''', valor_lido = None, nome_lido = '''',
      data_nascimento_lida = '''', endereco_lido = '''', agora = ''''\<rparr>"

definition leituras_nan :: "leitura list" where
  "leituras_nan =
     [leitura_vazia\<lparr>opcao := ''nu'', cpf_lido := ''111'', nome_lido := ''Ana'',
        data_nascimento_lida := ''01-01-1990'', endereco_lido := ''Rua A, 1''\<rparr>,
      leitura_vazia\<lparr>opcao := ''nc'', cpf_lido := ''111''\<rparr>,
      leitura_vazia\<lparr>opcao := ''d'', cpf_lido := ''111'', valor_lido := Some NaN,
        agora := ''03-11-2026 10:00:00''\<rparr>]"


section \<open>Facts about the floats\<close>

lemmas pyfloat_ops =
  zero_pyfloat_def less_eq_pyfloat_def less_pyfloat_def plus_pyfloat_def minus_pyfloat_def

lemma round_half_even_of_int: "round_half_even (of_int k) = k"
  by (simp add: round_half_even_def)

lemma floor_log2_of_int_bounds:
  assumes "0 < n" "n < 2 ^ 53"
  shows "0 \<le> floor_log2 (of_int n)" "floor_log2 (of_int n) \<le> 52"
proof -
  have fl: "floor_log2 (of_int n) = bitlen n - 1"
    using assms by (simp add: floor_log2_def)
  have b: "2 ^ nat (bitlen n - 1) \<le> n" "n < 2 ^ nat (bitlen n)"
    using bitlen_bounds [OF assms(1)] by auto
  have "1 \<le> bitlen n" using assms(1) by (simp add: bitlen_alt_def)
  then show "0 \<le> floor_log2 (of_int n)" using fl by simp
  have "(2::int) ^ nat (bitlen n - 1) < 2 ^ 53" using b(1) assms(2) by linarith
  then have "nat (bitlen n - 1) < 53"
    using power_less_imp_less_exp [of "2::int" "nat (bitlen n - 1)" 53] by simp
  then show "floor_log2 (of_int n) \<le> 52" using fl by simp
qed

lemma round64_of_nat_pos:
  assumes "0 < n" "n < 2 ^ 53"
  shows "round64 (of_int n) = Finite (of_int n)"
proof -
  define e where "e = floor_log2 (of_int n) - 52"
  have e: "- 52 \<le> e" "e \<le> 0"
    using floor_log2_of_int_bounds [OF assms] by (simp_all add: e_def)
  have m: "max e (- 1074) = e" using e by simp
  have p: "(2::real) powi e = 1 / 2 ^ nat (- e)"
    using e by (simp add: power_int_def divide_simps)
  have q: "real_of_int n / 2 powi e = of_int (n * 2 ^ nat (- e))"
    by (simp add: p)
  have r: "of_int (round_half_even (real_of_int n / 2 powi e)) * 2 powi e = real_of_int n"
    unfolding q round_half_even_of_int by (simp add: p)
  have lt: "real_of_int n < 2 ^ 1024"
  proof -
    have "real_of_int n < 2 ^ 53" using assms(2) by (metis of_int_less_numeral_power_cancel_iff)
    also have "\<dots> \<le> (2::real) ^ 1024" by (rule power_increasing) simp_all
    finally show ?thesis .
  qed
  show ?thesis
    using assms(1) lt by (simp add: round64_def Let_def m r e_def [symmetric])
qed

lemma round64_of_int:
  assumes "\<bar>n\<bar> < 2 ^ 53"
  shows "round64 (of_int n) = Finite (of_int n)"
proof (cases "n = 0")
  case True then show ?thesis by (simp add: round64_def)
next
  case False
  show ?thesis
  proof (cases "0 < n")
    case True
    then show ?thesis using round64_of_nat_pos assms by simp
  next
    case neg: False
    then have n: "0 < - n" "- n < 2 ^ 53" using False assms by simp_all
    have "round64 (of_int (- n)) = Finite (of_int (- n))" by (rule round64_of_nat_pos [OF n])
    then show ?thesis using n(1)
      by (simp add: round64_def Let_def split: if_splits)
  qed
qed

text \<open>\<open>floor_log2\<close> is the integer part of the logarithm to the base 2.\<close>

lemma floor_log2_eq:
  assumes "0 < a"
  shows "floor_log2 a = \<lfloor>log 2 a\<rfloor>"
proof (cases "1 \<le> a")
  case True
  define k where "k = \<lfloor>log 2 a\<rfloor>"
  have k0: "0 \<le> k" using True by (simp add: k_def)
  have b: "2 powr k \<le> a" "a < 2 powr (k + 1)"
    using floor_log_eq_powr_iff [of a 2 k] assms by (simp_all add: k_def)
  have p: "2 powr real_of_int k = real_of_int (2 ^ nat k)"
    "2 powr real_of_int (k + 1) = real_of_int (2 ^ nat (k + 1))"
    using k0 by (simp_all add: powr_realpow [symmetric])
  have fa: "0 < \<lfloor>a\<rfloor>" using True by simp
  have "2 ^ nat k \<le> \<lfloor>a\<rfloor>" using b(1) p(1) by (simp add: le_floor_iff)
  then have l: "2 powr k \<le> real_of_int \<lfloor>a\<rfloor>" using p(1) by (metis of_int_le_iff)
  have u: "real_of_int \<lfloor>a\<rfloor> < 2 powr (k + 1)"
    using of_int_floor_le [of a] b(2) by (rule le_less_trans)
  have "\<lfloor>log 2 (real_of_int \<lfloor>a\<rfloor>)\<rfloor> = k"
    using floor_log_eq_powr_iff [of "real_of_int \<lfloor>a\<rfloor>" 2 k] fa l u by simp
  then show ?thesis
    using True fa by (simp add: floor_log2_def bitlen_alt_def k_def)
next
  case False
  then have a1: "a < 1" by simp
  define m where "m = \<lceil>1 / a\<rceil>"
  have y1: "1 < 1 / a" using assms a1 by simp
  then have m2: "2 \<le> m" unfolding m_def by linarith
  define j where "j = bitlen (m - 1)"
  have jb: "2 ^ nat (j - 1) \<le> m - 1" "m - 1 < 2 ^ nat j"
    using bitlen_bounds [of "m - 1"] m2 by (simp_all add: j_def)
  have j1: "1 \<le> j" using m2 by (simp add: j_def bitlen_alt_def)
  have ym: "1 / a \<le> real_of_int m" "real_of_int m - 1 < 1 / a"
    unfolding m_def by linarith+
  have up: "1 / a \<le> 2 ^ nat j"
  proof -
    have "m \<le> 2 ^ nat j" using jb(2) by simp
    then have "real_of_int m \<le> 2 ^ nat j" by simp
    with ym(1) show ?thesis by (rule order_trans)
  qed
  have lo: "2 ^ nat (j - 1) < 1 / a"
  proof -
    have "m - 1 \<ge> 2 ^ nat (j - 1)" using jb(1) by simp
    then have "(2::real) ^ nat (j - 1) \<le> real_of_int (m - 1)"
      by (simp only: numeral_power_le_of_int_cancel_iff)
    then have "(2::real) ^ nat (j - 1) \<le> real_of_int m - 1" by simp
    then show ?thesis using ym(2) by (rule le_less_trans)
  qed
  have pj: "(2::real) powr (- j) = 1 / 2 ^ nat j"
    using j1 by (simp add: powr_minus powr_realpow [symmetric] divide_simps)
  have pj1: "(2::real) powr (- j + 1) = 1 / 2 ^ nat (j - 1)"
  proof -
    have "(2::real) powr (- j + 1) = 2 powr (- real (nat (j - 1)))" using j1 by simp
    then show ?thesis by (simp add: powr_minus powr_realpow divide_simps)
  qed
  have l: "2 powr (- j) \<le> a"
    unfolding pj using up assms by (simp add: divide_simps mult.commute)
  have u: "a < 2 powr (- j + 1)"
    unfolding pj1 using lo assms by (simp add: divide_simps mult.commute)
  have "\<lfloor>log 2 a\<rfloor> = - j"
    using floor_log_eq_powr_iff [of a 2 "- j"] assms l u by simp
  then show ?thesis
    using False by (simp add: floor_log2_def j_def m_def)
qed




text \<open>Rounding keeps the sign, so sums and differences that are \<open>\<ge> 0\<close> stay so.\<close>

lemma round_half_even_nonneg: "0 \<le> q \<Longrightarrow> 0 \<le> round_half_even q"
  by (simp add: round_half_even_def Let_def)

lemma round64_nonneg: "0 \<le> x \<Longrightarrow> Finite 0 \<le> round64 x"
proof (cases "x = 0")
  case True
  then show ?thesis by (simp add: round64_def pyfloat_ops)
next
  case False
  assume "0 \<le> x"
  with False have x: "0 < x" by simp
  define e where "e = max (floor_log2 x - 52) (- 1074)"
  have "0 \<le> x / 2 powi e" using x by simp
  then have "0 \<le> round_half_even (x / 2 powi e)" by (rule round_half_even_nonneg)
  then have r: "0 \<le> real_of_int (round_half_even (x / 2 powi e)) * 2 powi e"
    by simp
  have ax: "\<bar>x\<bar> = x" "sgn x = 1" using x by simp_all
  have "round64 x =
      (if 2 ^ 1024 \<le> real_of_int (round_half_even (x / 2 powi e)) * 2 powi e then PInf
       else Finite (real_of_int (round_half_even (x / 2 powi e)) * 2 powi e))"
    unfolding round64_def Let_def ax e_def using x by simp
  then show ?thesis
    using r by (simp add: pyfloat_ops del: power_numeral)
qed

lemma py_add_nonneg:
  "Finite 0 \<le> a \<Longrightarrow> \<not> Finite y \<le> 0 \<Longrightarrow> Finite 0 \<le> a + Finite y"
proof (cases a)
  case (Finite x)
  assume "Finite 0 \<le> a" "\<not> Finite y \<le> 0"
  then have "0 \<le> x + y" using Finite by (simp add: pyfloat_ops)
  then show ?thesis using round64_nonneg [of "x + y"] Finite by (simp add: pyfloat_ops)
qed (simp_all add: pyfloat_ops)

lemma py_sub_nonneg:
  "Finite 0 \<le> a \<Longrightarrow> \<not> Finite y > a \<Longrightarrow> Finite 0 \<le> a - Finite y"
proof (cases a)
  case (Finite x)
  assume "Finite 0 \<le> a" "\<not> Finite y > a"
  then have "0 \<le> x - y" using Finite by (simp add: pyfloat_ops)
  then show ?thesis using round64_nonneg [of "x - y"] Finite by (simp add: pyfloat_ops)
qed (simp_all add: pyfloat_ops)



lemma floor_log2_mult:
  assumes "m > 0"
  shows "floor_log2 (of_int m * 2 powi e) = bitlen m - 1 + e"
proof -
  have pos: "0 < real_of_int m * 2 powi e" using assms by simp
  have "log 2 (real_of_int m * 2 powi e) = log 2 (real_of_int m) + log 2 (2 powi e)"
    using assms by (simp add: log_mult)
  also have "log 2 ((2::real) powi e) = of_int e"
    by (simp add: powr_real_of_int' [symmetric])
  finally have "\<lfloor>log 2 (real_of_int m * 2 powi e)\<rfloor> = \<lfloor>log 2 (real_of_int m)\<rfloor> + e"
    by simp
  then show ?thesis
    using assms by (simp add: floor_log2_eq [OF pos] bitlen_alt_def)
qed


lemma powi_split:
  assumes "E \<le> e"
  shows "(2::real) powi e = 2 ^ nat (e - E) * 2 powi E"
proof -
  have "e = int (nat (e - E)) + E" using assms by simp
  then have "(2::real) powi e = 2 powi (int (nat (e - E)) + E)" by (rule arg_cong)
  also have "\<dots> = 2 powi int (nat (e - E)) * 2 powi E" by (rule power_int_add) simp
  also have "(2::real) powi int (nat (e - E)) = 2 ^ nat (e - E)" by (rule power_int_of_nat)
  finally show ?thesis .
qed

lemma bitlen_le_53:
  assumes "0 < M" "M < 2 ^ 53"
  shows "1 \<le> bitlen M" "bitlen M \<le> 53"
proof -
  show "1 \<le> bitlen M" using assms(1) by (simp add: bitlen_alt_def)
  have "(2::int) ^ nat (bitlen M - 1) \<le> M" using bitlen_bounds [OF assms(1)] by simp
  then have "(2::int) ^ nat (bitlen M - 1) < 2 ^ 53" using assms(2) by linarith
  then have "nat (bitlen M - 1) < 53"
    using power_less_imp_less_exp [of "2::int" "nat (bitlen M - 1)" 53] by simp
  then show "bitlen M \<le> 53" by simp
qed

lemma round64_exato:
  assumes "\<bar>m\<bar> < 2 ^ 53" "- 1074 \<le> e" "e \<le> 971"
  shows "round64 (of_int m * 2 powi e) = Finite (of_int m * 2 powi e)"
proof (cases "m = 0")
  case True
  then show ?thesis by (simp add: round64_def)
next
  case False
  define M where "M = \<bar>m\<bar>"
  define x where "x = real_of_int m * 2 powi e"
  have M: "0 < M" "M < 2 ^ 53" using False assms(1) by (simp_all add: M_def)
  have x0: "x \<noteq> 0" using False by (simp add: x_def)
  have ax: "\<bar>x\<bar> = of_int M * 2 powi e" by (simp add: x_def M_def abs_mult)
  have fl: "floor_log2 \<bar>x\<bar> = bitlen M - 1 + e"
    unfolding ax using M(1) by (rule floor_log2_mult)
  define E where "E = max (floor_log2 \<bar>x\<bar> - 52) (- 1074)"
  have Ee: "E \<le> e" using bitlen_le_53 [OF M] assms(2) by (simp add: E_def fl)
  have q: "\<bar>x\<bar> / 2 powi E = of_int (M * 2 ^ nat (e - E))"
    unfolding ax by (simp add: powi_split [OF Ee])
  have r: "of_int (round_half_even (\<bar>x\<bar> / 2 powi E)) * 2 powi E = \<bar>x\<bar>"
    unfolding q round_half_even_of_int unfolding ax by (simp add: powi_split [OF Ee])
  have lt: "\<bar>x\<bar> < 2 ^ 1024"
  proof -
    have a: "real_of_int M < 2 ^ 53" using M(2) by (metis of_int_less_numeral_power_cancel_iff)
    have "(2::real) powi e \<le> 2 powi 971" using assms(3) by (intro power_int_increasing) simp_all
    then have b: "(2::real) powi e \<le> 2 ^ 971" by simp
    have "real_of_int M * 2 powi e < 2 ^ 53 * 2 ^ 971"
      by (rule mult_less_le_imp_less [OF a b]) (use M(1) in simp_all)
    also have "(2::real) ^ 53 * 2 ^ 971 = 2 ^ 1024" by (simp add: power_add [symmetric])
    finally show ?thesis by (simp only: ax)
  qed
  have sx: "sgn x * \<bar>x\<bar> = x" by (simp add: abs_sgn mult.commute)
  have "round64 x = Finite (sgn x * \<bar>x\<bar>)"
    using x0 lt r by (simp add: round64_def Let_def E_def [symmetric] del: power_numeral)
  then show ?thesis unfolding sx by (simp add: x_def)
qed





text \<open>
  \<^verbatim>\<open>1e16\<close> is a binary64 number, and \<^verbatim>\<open>1e16 - 1\<close> is not: the difference rounds back to
  \<^verbatim>\<open>1e16\<close>.
\<close>

lemma round64_dez_quatrilhoes: "round64 10000000000000000 = Finite 10000000000000000"
  using round64_exato [of 152587890625 16] by simp





lemma float_somas:
  "0 + Finite 1000 = Finite 1000"
  "Finite 200 \<le> 0 \<longleftrightarrow> False"
  "Finite 1000 \<le> 0 \<longleftrightarrow> False"
  "Finite 500 < Finite 200 \<longleftrightarrow> False"
  "Finite 1000 < Finite 200 \<longleftrightarrow> False"
  "Finite 800 < Finite 200 \<longleftrightarrow> False"
  "Finite 600 < Finite 200 \<longleftrightarrow> False"
  "Finite 1000 - Finite 200 = Finite 800"
  "Finite 800 - Finite 200 = Finite 600"
  "Finite 600 - Finite 200 = Finite 400"
  using round64_of_int [of 1000] round64_of_int [of 800] round64_of_int [of 600]
    round64_of_int [of 400]
  by (simp_all add: pyfloat_ops)


section \<open>Conta\<close>



text \<open>The balance of \<^verbatim>\<open>1e16\<close> is reached by one deposit on a new account.\<close>

lemma conta_saldo_grande_alcancavel:
  "Conta_depositar (Conta_init 1 0) (Finite 10000000000000000)
     = (True, DepositoRealizado, conta_saldo_grande)"
  by (simp add: Conta_depositar_def conta_saldo_grande_def Conta_init_def pyfloat_ops
      round64_dez_quatrilhoes)








section \<open>ContaCorrente\<close>

text \<open>
  C3. \<^verbatim>\<open>ContaCorrente.sacar\<close>, for every checking account, whatever its balance and its
  history: an amount greater than the limit of the account makes the call return False
  with the message of the limit, and the account, its balance included, is as it was.
  The witness is the scenario of the specification: 600 from an account with the default
  limit 500.0 and a balance of 1000.
\<close>

theorem ContaCorrente_sacar_acima_do_limite:
  "v > limite c \<Longrightarrow> ContaCorrente_sacar c v = (False, SaqueExcedeLimite, c)"
  by (simp add: ContaCorrente_sacar_def)

theorem ContaCorrente_sacar_acima_do_limite_witness:
  "Finite 600 > limite ((ContaCorrente_nova_conta 0 1)\<lparr>saldo := Finite 1000\<rparr>) \<and>
   limite ((ContaCorrente_nova_conta 0 1)\<lparr>saldo := Finite 1000\<rparr>) = Finite 500 \<and>
   ContaCorrente_sacar ((ContaCorrente_nova_conta 0 1)\<lparr>saldo := Finite 1000\<rparr>) (Finite 600)
     = (False, SaqueExcedeLimite, (ContaCorrente_nova_conta 0 1)\<lparr>saldo := Finite 1000\<rparr>)"
proof -
  have h: "Finite 600 > limite ((ContaCorrente_nova_conta 0 1)\<lparr>saldo := Finite 1000\<rparr>)"
    by (simp add: ContaCorrente_nova_conta_def ContaCorrente_init_def conta.extend_def
        limite_padrao_def pyfloat_ops)
  show ?thesis
    using h ContaCorrente_sacar_acima_do_limite [OF h]
    by (simp add: ContaCorrente_nova_conta_def ContaCorrente_init_def conta.extend_def
        limite_padrao_def)
qed

text \<open>
  The scenario of the specification runs as it says: the deposit and the three
  withdrawals succeed, the balance is 400.0 and the history holds the four entries.
\<close>

lemma cenario_conta_eq: "cenario_conta = ObjContaCorrente conta_apos_cenario"
  by (simp add: cenario_conta_def cenario_transacoes_def conta_apos_cenario_def
      ContaCorrente_nova_conta_def ContaCorrente_init_def Conta_init_def Historico_init_def
      conta.extend_def limite_padrao_def limite_saques_padrao_def
      ContaCorrente_sacar_def Conta_sacar_def Conta_depositar_def saques_realizados_def
      adicionar_transacao_def float_somas)

text \<open>
  C4, as amended. For every checking account whose history holds at least
  \<open>limite_saques\<close> entries of kind \<^verbatim>\<open>Saque\<close>, every further call of
  \<^verbatim>\<open>ContaCorrente.sacar\<close>, whatever the amount, returns False and leaves the account, its
  balance included, as it was. The message is the one of the maximum of withdrawals when
  the amount is not greater than the limit of the account; when it is greater, the test of
  the limit comes first and its message is printed instead.
\<close>

theorem ContaCorrente_sacar_maximo_de_saques:
  "saques_realizados c \<ge> limite_saques c \<Longrightarrow>
   ContaCorrente_sacar c v =
     (False, if v > limite c then SaqueExcedeLimite else MaximoSaquesExcedido, c)"
  by (simp add: ContaCorrente_sacar_def)

theorem ContaCorrente_sacar_maximo_de_saques_witness:
  "saques_realizados conta_apos_cenario \<ge> limite_saques conta_apos_cenario \<and>
   ContaCorrente_sacar conta_apos_cenario (Finite 1)
     = (False, MaximoSaquesExcedido, conta_apos_cenario) \<and>
   saldo conta_apos_cenario = Finite 400"
proof -
  have h: "saques_realizados conta_apos_cenario \<ge> limite_saques conta_apos_cenario"
    by (simp add: conta_apos_cenario_def saques_realizados_def)
  have l: "\<not> Finite 1 > limite conta_apos_cenario"
    by (simp add: conta_apos_cenario_def pyfloat_ops)
  show ?thesis
    using h l ContaCorrente_sacar_maximo_de_saques [OF h, of "Finite 1"]
    by (simp add: conta_apos_cenario_def)
qed

text \<open>
  C4 as stated fails: after the three withdrawals of the scenario, an attempt of 600 is
  refused for exceeding the limit of 500.0, not for the maximum of withdrawals.
\<close>

theorem ContaCorrente_sacar_maximo_de_saques_counterexample:
  "saques_realizados conta_apos_cenario \<ge> limite_saques conta_apos_cenario \<and>
   ContaCorrente_sacar conta_apos_cenario (Finite 600)
     = (False, SaqueExcedeLimite, conta_apos_cenario) \<and>
   SaqueExcedeLimite \<noteq> MaximoSaquesExcedido"
  by (simp add: conta_apos_cenario_def saques_realizados_def ContaCorrente_sacar_def
      pyfloat_ops)

lemma positivo_nao_le_zero: "(v::pyfloat) > 0 \<Longrightarrow> \<not> v \<le> 0"
  by (cases v) (simp_all add: pyfloat_ops)

lemma registrar_Deposito_ContaCorrente:
  "\<exists>c'. snd (registrar (Deposito v) (ObjContaCorrente c) hora) = ObjContaCorrente c' \<and>
        limite c' = limite c \<and> limite_saques c' = limite_saques c \<and>
        saques_realizados c' = saques_realizados c"
  by (simp add: Conta_depositar_def saques_realizados_def adicionar_transacao_def)

lemma depositar_todos_ContaCorrente:
  "\<exists>c'. depositar_todos ds (ObjContaCorrente c) = ObjContaCorrente c' \<and>
        limite c' = limite c \<and> limite_saques c' = limite_saques c \<and>
        saques_realizados c' = saques_realizados c"
proof (induction ds arbitrary: c)
  case Nil
  then show ?case by (simp add: depositar_todos_def)
next
  case (Cons d ds)
  obtain v hora where d: "d = (v, hora)" by (cases d)
  obtain c1 where c1: "snd (registrar (Deposito v) (ObjContaCorrente c) hora) = ObjContaCorrente c1"
    "limite c1 = limite c" "limite_saques c1 = limite_saques c"
    "saques_realizados c1 = saques_realizados c"
    using registrar_Deposito_ContaCorrente [of v c hora] by blast
  obtain c2 where c2: "depositar_todos ds (ObjContaCorrente c1) = ObjContaCorrente c2"
    "limite c2 = limite c1" "limite_saques c2 = limite_saques c1"
    "saques_realizados c2 = saques_realizados c1"
    using Cons.IH [of c1] by blast
  have "depositar_todos (d # ds) (ObjContaCorrente c) = ObjContaCorrente c2"
    using c1(1) c2(1) by (simp add: depositar_todos_def d)
  then show ?case using c1 c2 by simp
qed

lemma ContaCorrente_sacar_maximo_iff:
  "fst (snd (ContaCorrente_sacar c w)) = MaximoSaquesExcedido \<longleftrightarrow>
   \<not> w > limite c \<and> saques_realizados c \<ge> limite_saques c"
  by (simp add: ContaCorrente_sacar_def Conta_sacar_def)

text \<open>
  C9. On a checking account, whatever its history, a deposit of a positive amount
  succeeds and adds the amount to the balance (\<^verbatim>\<open>depositar\<close> is the one of \<^verbatim>\<open>Conta\<close>).
  And after any run of deposits through \<open>registrar\<close>, a withdrawal is refused for the
  maximum of withdrawals exactly when it would have been refused for it before the
  deposits: the count looks only at the entries of kind \<^verbatim>\<open>Saque\<close>.
\<close>

theorem depositos_nao_consomem_saques:
  "(v > 0 \<longrightarrow>
      fst (chamar_depositar (ObjContaCorrente c) v) \<and>
      obj_saldo (snd (snd (chamar_depositar (ObjContaCorrente c) v))) = saldo c + v) \<and>
   (fst (snd (chamar_sacar (depositar_todos ds (ObjContaCorrente c)) w)) = MaximoSaquesExcedido
      \<longleftrightarrow> fst (snd (chamar_sacar (ObjContaCorrente c) w)) = MaximoSaquesExcedido)"
proof -
  obtain c' where c': "depositar_todos ds (ObjContaCorrente c) = ObjContaCorrente c'"
    "limite c' = limite c" "limite_saques c' = limite_saques c"
    "saques_realizados c' = saques_realizados c"
    using depositar_todos_ContaCorrente [of ds c] by blast
  have 1: "fst (snd (chamar_sacar (ObjContaCorrente c') w)) = fst (snd (ContaCorrente_sacar c' w))"
    by (simp add: split_beta)
  have 2: "fst (snd (chamar_sacar (ObjContaCorrente c) w)) = fst (snd (ContaCorrente_sacar c w))"
    by (simp add: split_beta)
  have dep: "v > 0 \<longrightarrow>
      fst (chamar_depositar (ObjContaCorrente c) v) \<and>
      obj_saldo (snd (snd (chamar_depositar (ObjContaCorrente c) v))) = saldo c + v"
    using positivo_nao_le_zero [of v] by (auto simp add: Conta_depositar_def)
  have saq: "fst (snd (chamar_sacar (ObjContaCorrente c') w)) = MaximoSaquesExcedido
      \<longleftrightarrow> fst (snd (chamar_sacar (ObjContaCorrente c) w)) = MaximoSaquesExcedido"
    unfolding 1 2 ContaCorrente_sacar_maximo_iff c'(2,3,4) ..
  show ?thesis
    using dep saq unfolding c'(1) by blast
qed

theorem depositos_nao_consomem_saques_witness:
  "Finite 1000 > 0 \<and>
   fst (chamar_depositar (ObjContaCorrente (ContaCorrente_nova_conta 0 1)) (Finite 1000)) \<and>
   obj_saldo (snd (snd (chamar_depositar (ObjContaCorrente (ContaCorrente_nova_conta 0 1))
       (Finite 1000)))) = Finite 1000 \<and>
   fst (snd (chamar_sacar
       (depositar_todos [(Finite 1000, ''03-11-2026 10:00:00''), (Finite 50, ''03-11-2026 10:05:00'')]
          (ObjContaCorrente (ContaCorrente_nova_conta 0 1)))
       (Finite 100))) \<noteq> MaximoSaquesExcedido"
proof -
  let ?c = "ContaCorrente_nova_conta 0 1"
  have p: "Finite 1000 > 0" by (simp add: pyfloat_ops)
  have s: "saldo ?c + Finite 1000 = Finite 1000"
    using round64_of_int [of 1000]
    by (simp add: ContaCorrente_nova_conta_def ContaCorrente_init_def Conta_init_def
        conta.extend_def pyfloat_ops)
  have m: "fst (snd (chamar_sacar (ObjContaCorrente ?c) (Finite 100))) \<noteq> MaximoSaquesExcedido"
    by (simp add: ContaCorrente_nova_conta_def ContaCorrente_init_def Conta_init_def
        conta.extend_def ContaCorrente_sacar_def Conta_sacar_def saques_realizados_def
        Historico_init_def limite_padrao_def limite_saques_padrao_def pyfloat_ops)
  show ?thesis
    using p s m
      depositos_nao_consomem_saques [of "Finite 1000" ?c
        "[(Finite 1000, ''03-11-2026 10:00:00''), (Finite 50, ''03-11-2026 10:05:00'')]"
        "Finite 100"]
    by simp
qed


section \<open>New accounts\<close>

text \<open>
  C10. An account made by the constructor of \<^verbatim>\<open>Conta\<close> or of \<^verbatim>\<open>ContaCorrente\<close>, or by
  \<^verbatim>\<open>nova_conta\<close> on either class, has the balance 0.0 and an empty history.
\<close>

theorem contas_novas:
  "saldo (Conta_init n cli) = Finite 0 \<and>
   transacoes (historico (Conta_init n cli)) = [] \<and>
   saldo (Conta_nova_conta cli n) = Finite 0 \<and>
   transacoes (historico (Conta_nova_conta cli n)) = [] \<and>
   saldo (ContaCorrente_init n cli lmt lmt_saques) = Finite 0 \<and>
   transacoes (historico (ContaCorrente_init n cli lmt lmt_saques)) = [] \<and>
   saldo (ContaCorrente_nova_conta cli n) = Finite 0 \<and>
   transacoes (historico (ContaCorrente_nova_conta cli n)) = []"
  by (simp add: Conta_init_def Conta_nova_conta_def ContaCorrente_init_def
      ContaCorrente_nova_conta_def Historico_init_def conta.extend_def zero_pyfloat_def)


section \<open>Saque and Deposito\<close>

lemma chamar_sacar_historico:
  "obj_historico (snd (snd (chamar_sacar c v))) = obj_historico c"
  by (cases c) (simp_all add: Conta_sacar_def ContaCorrente_sacar_def)

lemma chamar_depositar_historico:
  "obj_historico (snd (snd (chamar_depositar c v))) = obj_historico c"
  by (cases c) (simp_all add: Conta_depositar_def)

lemma obj_adicionar_transacao_historico:
  "obj_historico (obj_adicionar_transacao c t hora) = adicionar_transacao (obj_historico c) t hora"
  by (cases c) simp_all

text \<open>
  C5. \<open>registrar\<close>, for a \<^verbatim>\<open>Saque\<close> and for a \<^verbatim>\<open>Deposito\<close>, on an account of either
  class: when the call of the account (\<^verbatim>\<open>sacar\<close> or \<^verbatim>\<open>depositar\<close>) returns True, the
  history after it is the history before it followed by one entry, with the name of the
  class of the transaction, its amount and the clock; when the call returns False, the
  history is as it was.
\<close>

theorem registrar_historico:
  "(fst (chamar_sacar c v) \<longrightarrow>
      transacoes (obj_historico (snd (registrar (Saque v) c hora))) =
        transacoes (obj_historico c) @ [\<lparr>tipo = ''Saque'', valor = v, data = hora\<rparr>]) \<and>
   (\<not> fst (chamar_sacar c v) \<longrightarrow>
      obj_historico (snd (registrar (Saque v) c hora)) = obj_historico c) \<and>
   (fst (chamar_depositar c v) \<longrightarrow>
      transacoes (obj_historico (snd (registrar (Deposito v) c hora))) =
        transacoes (obj_historico c) @ [\<lparr>tipo = ''Deposito'', valor = v, data = hora\<rparr>]) \<and>
   (\<not> fst (chamar_depositar c v) \<longrightarrow>
      obj_historico (snd (registrar (Deposito v) c hora)) = obj_historico c)"
proof -
  obtain ok m c' where s: "chamar_sacar c v = (ok, m, c')" by (cases "chamar_sacar c v")
  obtain ok2 m2 c2 where d: "chamar_depositar c v = (ok2, m2, c2)"
    by (cases "chamar_depositar c v")
  have hs: "obj_historico c' = obj_historico c"
    using chamar_sacar_historico [of c v] s by simp
  have hd: "obj_historico c2 = obj_historico c"
    using chamar_depositar_historico [of c v] d by simp
  show ?thesis
    by (simp add: s d hs hd obj_adicionar_transacao_historico adicionar_transacao_def)
qed

theorem registrar_historico_witness:
  "fst (chamar_sacar (ObjConta ((Conta_init 1 0)\<lparr>saldo := Finite 1000\<rparr>)) (Finite 200)) \<and>
   transacoes (obj_historico (snd (registrar (Saque (Finite 200))
       (ObjConta ((Conta_init 1 0)\<lparr>saldo := Finite 1000\<rparr>)) ''03-11-2026 10:00:00''))) =
     [\<lparr>tipo = ''Saque'', valor = Finite 200, data = ''03-11-2026 10:00:00''\<rparr>] \<and>
   fst (chamar_depositar (ObjConta ((Conta_init 1 0)\<lparr>saldo := Finite 1000\<rparr>)) (Finite 200)) \<and>
   transacoes (obj_historico (snd (registrar (Deposito (Finite 200))
       (ObjConta ((Conta_init 1 0)\<lparr>saldo := Finite 1000\<rparr>)) ''03-11-2026 10:00:00''))) =
     [\<lparr>tipo = ''Deposito'', valor = Finite 200, data = ''03-11-2026 10:00:00''\<rparr>] \<and>
   \<not> fst (chamar_sacar (ObjConta ((Conta_init 1 0)\<lparr>saldo := Finite 1000\<rparr>)) (Finite (- 5))) \<and>
   transacoes (obj_historico (snd (registrar (Saque (Finite (- 5)))
       (ObjConta ((Conta_init 1 0)\<lparr>saldo := Finite 1000\<rparr>)) ''03-11-2026 10:00:00''))) = [] \<and>
   \<not> fst (chamar_depositar (ObjConta ((Conta_init 1 0)\<lparr>saldo := Finite 1000\<rparr>)) (Finite (- 5))) \<and>
   transacoes (obj_historico (snd (registrar (Deposito (Finite (- 5)))
       (ObjConta ((Conta_init 1 0)\<lparr>saldo := Finite 1000\<rparr>)) ''03-11-2026 10:00:00''))) = []"
proof -
  let ?c = "ObjConta ((Conta_init 1 0)\<lparr>saldo := Finite 1000\<rparr>)"
  have a: "fst (chamar_sacar ?c (Finite 200))" "fst (chamar_depositar ?c (Finite 200))"
    by (simp_all add: Conta_sacar_def Conta_depositar_def pyfloat_ops)
  have b: "\<not> fst (chamar_sacar ?c (Finite (- 5)))" "\<not> fst (chamar_depositar ?c (Finite (- 5)))"
    by (simp_all add: Conta_sacar_def Conta_depositar_def pyfloat_ops)
  have h: "transacoes (obj_historico ?c) = []"
    by (simp add: Conta_init_def Historico_init_def)
  show ?thesis
    using a b h registrar_historico [of ?c "Finite 200" "''03-11-2026 10:00:00''"]
      registrar_historico [of ?c "Finite (- 5)" "''03-11-2026 10:00:00''"]
    by simp
qed


section \<open>The balance\<close>

text \<open>
  C6. The claim is that the balance is \<open>\<ge> 0\<close> in every state that can be reached. The
  code lets one value through: NaN is not \<open>\<le> 0\<close>, so \<^verbatim>\<open>depositar\<close> accepts it, returns
  True and the balance becomes NaN, which is not \<open>\<ge> 0\<close>. The console reaches that state
  when \<^verbatim>\<open>nan\<close> is typed as the amount of a deposit.
\<close>

theorem saldo_nan_apos_deposito:
  "Conta_depositar (Conta_init 1 0) NaN
     = (True, DepositoRealizado, (Conta_init 1 0)\<lparr>saldo := NaN\<rparr>) \<and>
   fst (main leituras_nan) = [ClienteCriado, ContaCriada, DepositoRealizado] \<and>
   map obj_saldo (main_contas (snd (main leituras_nan))) = [NaN] \<and>
   \<not> (NaN \<ge> (0::pyfloat))"
  by (simp add: main_def sessao_inicial_def leituras_nan_def leitura_vazia_def main_passo_def
      criar_cliente_def criar_conta_def depositar_def recuperar_conta_cliente_def
      realizar_transacao_def adicionar_conta_def PessoaFisica_init_def Cliente_init_def
      cliente.extend_def ContaCorrente_nova_conta_def ContaCorrente_init_def Conta_init_def
      conta.extend_def Conta_depositar_def Historico_init_def adicionar_transacao_def
      pyfloat_ops Let_def)


text \<open>
  What the guards do give: with an amount that is a finite number, every operation on an
  account whose balance is \<open>\<ge> 0\<close> leaves a balance that is \<open>\<ge> 0\<close>.
\<close>

lemma Conta_depositar_saldo_nao_negativo:
  "0 \<le> saldo c \<Longrightarrow> 0 \<le> saldo (snd (snd (Conta_depositar c (Finite y))))"
  using py_add_nonneg [of "saldo c" y] by (simp add: Conta_depositar_def zero_pyfloat_def)

lemma Conta_sacar_saldo_nao_negativo:
  "0 \<le> saldo c \<Longrightarrow> 0 \<le> saldo (snd (snd (Conta_sacar c (Finite y))))"
  using py_sub_nonneg [of "saldo c" y] by (simp add: Conta_sacar_def zero_pyfloat_def)

lemma ContaCorrente_sacar_saldo_nao_negativo:
  "0 \<le> saldo c \<Longrightarrow> 0 \<le> saldo (snd (snd (ContaCorrente_sacar c (Finite y))))"
  using Conta_sacar_saldo_nao_negativo [of c y] by (simp add: ContaCorrente_sacar_def)

lemma obj_adicionar_transacao_saldo:
  "obj_saldo (obj_adicionar_transacao c t hora) = obj_saldo c"
  by (cases c) simp_all

lemma registrar_saldo_nao_negativo:
  "0 \<le> obj_saldo c \<Longrightarrow> Transacao_valor t = Finite y \<Longrightarrow>
   0 \<le> obj_saldo (snd (registrar t c hora))"
proof (cases t)
  case (Saque v)
  assume "0 \<le> obj_saldo c" "Transacao_valor t = Finite y"
  then show ?thesis
    using Saque
    by (cases c)
      (auto simp add: split_beta obj_adicionar_transacao_saldo
        Conta_sacar_saldo_nao_negativo ContaCorrente_sacar_saldo_nao_negativo)
next
  case (Deposito v)
  assume "0 \<le> obj_saldo c" "Transacao_valor t = Finite y"
  then show ?thesis
    using Deposito
    by (cases c)
      (auto simp add: split_beta obj_adicionar_transacao_saldo
        Conta_depositar_saldo_nao_negativo)
qed


section \<open>The console session\<close>

lemma filtrar_cliente_None_iff:
  "filtrar_cliente c xs = None \<longleftrightarrow> c \<notin> cpf ` set xs"
  by (induction xs) auto

lemma filtrar_cliente_Some:
  "filtrar_cliente c xs = Some i \<Longrightarrow> i < length xs \<and> cpf (xs ! i) = c"
  by (induction xs arbitrary: i) (auto split: if_splits)

text \<open>
  C7. \<^verbatim>\<open>criar_cliente\<close> with a CPF that a customer of the list already has: the message
  of the duplicate is printed and the session is as it was, the list of customers and
  every customer in it included.
\<close>

theorem criar_cliente_cpf_existente:
  "c \<in> cpf ` set (main_clientes s) \<Longrightarrow>
   criar_cliente s c nm dt en = ([JaExisteCliente], s)"
proof -
  assume "c \<in> cpf ` set (main_clientes s)"
  then have "filtrar_cliente c (main_clientes s) \<noteq> None"
    by (simp add: filtrar_cliente_None_iff)
  then obtain i where "filtrar_cliente c (main_clientes s) = Some i" by blast
  then show ?thesis by (simp add: criar_cliente_def)
qed

theorem criar_cliente_cpf_existente_witness:
  "''111'' \<in> cpf ` set (main_clientes sessao_com_ana) \<and>
   criar_cliente sessao_com_ana ''111'' ''Bia'' ''02-02-1992'' ''Rua B, 2''
     = ([JaExisteCliente], sessao_com_ana)"
proof -
  have h: "''111'' \<in> cpf ` set (main_clientes sessao_com_ana)"
    by (simp add: sessao_com_ana_def PessoaFisica_init_def cliente.extend_def)
  show ?thesis
    using h criar_cliente_cpf_existente [OF h, of "''Bia''" "''02-02-1992''" "''Rua B, 2''"]
    by simp
qed


lemma registrar_numero: "obj_numero (snd (registrar t c hora)) = obj_numero c"
proof (cases t)
  case (Saque v)
  then show ?thesis
    by (cases c)
      (simp_all add: Conta_sacar_def ContaCorrente_sacar_def split: if_splits)
next
  case (Deposito v)
  then show ?thesis
    by (cases c) (simp_all add: Conta_depositar_def split: if_splits)
qed

lemma numeros_update:
  "map obj_numero (xs[r := snd (registrar t (xs ! r) hora)]) = map obj_numero xs"
proof (cases "r < length xs")
  case True
  then have "(map obj_numero xs)[r := obj_numero (xs ! r)] = map obj_numero xs"
    by (metis list_update_id nth_map)
  then show ?thesis by (simp add: map_update registrar_numero)
next
  case False
  then have "length xs \<le> r" by simp
  then show ?thesis by (simp only: list_update_beyond)
qed

lemma depositar_numeros: "numeros (snd (depositar s c v h)) = numeros s"
  by (simp add: depositar_def numeros_def realizar_transacao_def recuperar_conta_cliente_def
      numeros_update split_beta del: registrar.simps split: option.splits list.splits)

lemma sacar_numeros: "numeros (snd (sacar s c v h)) = numeros s"
  by (simp add: sacar_def numeros_def realizar_transacao_def recuperar_conta_cliente_def
      numeros_update split_beta del: registrar.simps split: option.splits list.splits)

lemma exibir_extrato_sessao: "snd (exibir_extrato s c) = s"
  by (simp add: exibir_extrato_def recuperar_conta_cliente_def Let_def
      split: option.splits list.splits)

lemma criar_cliente_numeros: "numeros (snd (criar_cliente s c nm dt en)) = numeros s"
  by (simp add: criar_cliente_def numeros_def split: option.splits)

lemma criar_conta_numeros:
  "numeros (snd (criar_conta n s c)) = numeros s \<or>
   numeros (snd (criar_conta n s c)) = numeros s @ [n]"
  by (simp add: criar_conta_def numeros_def Let_def ContaCorrente_nova_conta_def
      ContaCorrente_init_def Conta_init_def conta.extend_def split: option.splits)

lemma main_passo_numeros:
  assumes "numeros_em_sequencia s"
  shows "numeros_em_sequencia (snd (snd (main_passo s l)))"
proof -
  have len: "length (main_contas t) = length (numeros t)" for t
    by (simp add: numeros_def)
  have keep: "numeros t = numeros s \<Longrightarrow> numeros_em_sequencia t" for t
    using assms len [of t] len [of s] by (simp add: numeros_em_sequencia_def)
  have grow: "numeros t = numeros s @ [int (length (main_contas s)) + 1]
      \<Longrightarrow> numeros_em_sequencia t" for t
    using assms len [of t] len [of s] by (simp add: numeros_em_sequencia_def)
  show ?thesis
    using keep grow criar_conta_numeros [of "int (length (main_contas s)) + 1" s "cpf_lido l"]
    by (auto simp add: main_passo_def Let_def depositar_numeros sacar_numeros
        exibir_extrato_sessao criar_cliente_numeros listar_contas_def assms)
qed

lemma main_loop_numeros:
  "numeros_em_sequencia s \<Longrightarrow> numeros_em_sequencia (snd (main_loop s ls))"
proof (induction ls arbitrary: s)
  case Nil
  then show ?case by simp
next
  case (Cons l ls)
  obtain k out s' where p: "main_passo s l = (k, out, s')" by (cases "main_passo s l")
  have s': "numeros_em_sequencia s'"
    using main_passo_numeros [OF Cons.prems, of l] p by simp
  show ?case
    using Cons.IH [OF s'] s' by (simp add: p split_beta)
qed

text \<open>
  C8. After any input, the accounts of the session have the numbers 1, 2, ... in the order
  of the list (each account got the length of the list plus one when it was created, and
  no turn of the loop removes an account or changes a number), so no two accounts share a
  number.
\<close>

theorem numeros_de_conta_unicos:
  "map obj_numero (main_contas (snd (main ls)))
     = map int [1..<Suc (length (main_contas (snd (main ls))))] \<and>
   distinct (map obj_numero (main_contas (snd (main ls))))"
proof -
  have "numeros_em_sequencia sessao_inicial"
    by (simp add: numeros_em_sequencia_def numeros_def sessao_inicial_def)
  then have "numeros_em_sequencia (snd (main ls))"
    unfolding main_def by (rule main_loop_numeros)
  then have eq: "map obj_numero (main_contas (snd (main ls)))
     = map int [1..<Suc (length (main_contas (snd (main ls))))]"
    by (simp add: numeros_em_sequencia_def numeros_def)
  have "distinct (map int [1..<Suc (length (main_contas (snd (main ls))))])"
    by (simp add: distinct_map)
  then show ?thesis using eq by simp
qed

text \<open>
  The references stay in range: after any input every reference of the session names an
  object, so the lookups \<open>main_clientes s ! i\<close> and \<open>main_contas s ! r\<close> of the functions of
  the menu are never out of range.
\<close>

lemma registrar_cliente: "obj_cliente (snd (registrar t c hora)) = obj_cliente c"
proof (cases t)
  case (Saque v)
  then show ?thesis
    by (cases c) (simp_all add: Conta_sacar_def ContaCorrente_sacar_def split: if_splits)
next
  case (Deposito v)
  then show ?thesis
    by (cases c) (simp_all add: Conta_depositar_def split: if_splits)
qed

lemma bem_formada_update:
  assumes "sessao_bem_formada s" "r < length (main_contas s)"
  shows "sessao_bem_formada
           (s\<lparr>main_contas := (main_contas s)[r := snd (registrar t (main_contas s ! r) hora)]\<rparr>)"
proof -
  have "obj_cliente c < length (main_clientes s)"
    if "c \<in> set ((main_contas s)[r := snd (registrar t (main_contas s ! r) hora)])" for c
  proof -
    from that have "c = snd (registrar t (main_contas s ! r) hora) \<or> c \<in> set (main_contas s)"
      using set_update_subset_insert by fastforce
    moreover have "main_contas s ! r \<in> set (main_contas s)" using assms(2) by simp
    ultimately show ?thesis
      using assms(1) by (auto simp add: sessao_bem_formada_def registrar_cliente
          simp del: registrar.simps)
  qed
  then show ?thesis
    using assms(1) by (simp add: sessao_bem_formada_def del: registrar.simps)
qed

lemma recuperar_conta_bem_formada:
  assumes "sessao_bem_formada s" "i < length (main_clientes s)"
    "recuperar_conta_cliente (main_clientes s ! i) = (out, Some r)"
  shows "r < length (main_contas s)"
proof -
  have "r \<in> set (contas (main_clientes s ! i))"
    using assms(3) by (auto simp add: recuperar_conta_cliente_def split: list.splits)
  moreover have "main_clientes s ! i \<in> set (main_clientes s)" using assms(2) by simp
  ultimately show ?thesis using assms(1) by (auto simp add: sessao_bem_formada_def)
qed

lemma depositar_bem_formada:
  assumes "sessao_bem_formada s"
  shows "sessao_bem_formada (snd (depositar s c v h))"
proof (cases "filtrar_cliente c (main_clientes s)")
  case None
  then show ?thesis using assms by (simp add: depositar_def)
next
  case (Some i)
  then have i: "i < length (main_clientes s)" using filtrar_cliente_Some by blast
  show ?thesis
  proof (cases v)
    case None
    then show ?thesis using assms Some by (simp add: depositar_def)
  next
    case v: (Some x)
    obtain out ro where rc: "recuperar_conta_cliente (main_clientes s ! i) = (out, ro)"
      by (cases "recuperar_conta_cliente (main_clientes s ! i)")
    show ?thesis
    proof (cases ro)
      case None
      then show ?thesis using assms Some v rc by (simp add: depositar_def)
    next
      case r: (Some r)
      then have "r < length (main_contas s)"
        using recuperar_conta_bem_formada [OF assms i] rc by simp
      then show ?thesis
        using bem_formada_update [OF assms, of r "Deposito x" h] Some v rc r
        by (simp add: depositar_def realizar_transacao_def split_beta del: registrar.simps)
    qed
  qed
qed

lemma sacar_bem_formada:
  assumes "sessao_bem_formada s"
  shows "sessao_bem_formada (snd (sacar s c v h))"
proof (cases "filtrar_cliente c (main_clientes s)")
  case None
  then show ?thesis using assms by (simp add: sacar_def)
next
  case (Some i)
  then have i: "i < length (main_clientes s)" using filtrar_cliente_Some by blast
  show ?thesis
  proof (cases v)
    case None
    then show ?thesis using assms Some by (simp add: sacar_def)
  next
    case v: (Some x)
    obtain out ro where rc: "recuperar_conta_cliente (main_clientes s ! i) = (out, ro)"
      by (cases "recuperar_conta_cliente (main_clientes s ! i)")
    show ?thesis
    proof (cases ro)
      case None
      then show ?thesis using assms Some v rc by (simp add: sacar_def)
    next
      case r: (Some r)
      then have "r < length (main_contas s)"
        using recuperar_conta_bem_formada [OF assms i] rc by simp
      then show ?thesis
        using bem_formada_update [OF assms, of r "Saque x" h] Some v rc r
        by (simp add: sacar_def realizar_transacao_def split_beta del: registrar.simps)
    qed
  qed
qed

lemma criar_cliente_bem_formada:
  assumes "sessao_bem_formada s"
  shows "sessao_bem_formada (snd (criar_cliente s c nm dt en))"
  using assms
  by (auto simp add: criar_cliente_def sessao_bem_formada_def PessoaFisica_init_def
      Cliente_init_def cliente.extend_def less_Suc_eq split: option.splits)

lemma criar_conta_bem_formada:
  assumes "sessao_bem_formada s"
  shows "sessao_bem_formada (snd (criar_conta n s c))"
proof (cases "filtrar_cliente c (main_clientes s)")
  case None
  then show ?thesis using assms by (simp add: criar_conta_def)
next
  case (Some i)
  then have i: "i < length (main_clientes s)" using filtrar_cliente_Some by blast
  have old: "main_clientes s ! i \<in> set (main_clientes s)" using i by simp
  have "\<forall>r \<in> set (contas p). r < Suc (length (main_contas s))"
    if "p \<in> set ((main_clientes s)[i := adicionar_conta (main_clientes s ! i)
          (length (main_contas s))])" for p
  proof -
    from that have "p = adicionar_conta (main_clientes s ! i) (length (main_contas s))
        \<or> p \<in> set (main_clientes s)"
      using set_update_subset_insert by fastforce
    then show ?thesis
      using assms old by (auto simp add: sessao_bem_formada_def adicionar_conta_def less_Suc_eq)
  qed
  then show ?thesis
    using assms Some i
    by (auto simp add: criar_conta_def sessao_bem_formada_def Let_def
        ContaCorrente_nova_conta_def ContaCorrente_init_def Conta_init_def conta.extend_def)
qed

lemma main_passo_bem_formada:
  "sessao_bem_formada s \<Longrightarrow> sessao_bem_formada (snd (snd (main_passo s l)))"
  by (simp add: main_passo_def Let_def depositar_bem_formada sacar_bem_formada
      exibir_extrato_sessao criar_cliente_bem_formada criar_conta_bem_formada listar_contas_def)

lemma main_loop_bem_formada:
  "sessao_bem_formada s \<Longrightarrow> sessao_bem_formada (snd (main_loop s ls))"
proof (induction ls arbitrary: s)
  case Nil
  then show ?case by simp
next
  case (Cons l ls)
  obtain k out s' where p: "main_passo s l = (k, out, s')" by (cases "main_passo s l")
  have s': "sessao_bem_formada s'"
    using main_passo_bem_formada [OF Cons.prems, of l] p by simp
  show ?case
    using Cons.IH [OF s'] s' by (simp add: p split_beta)
qed

lemma main_bem_formada: "sessao_bem_formada (snd (main ls))"
  unfolding main_def
  by (rule main_loop_bem_formada) (simp add: sessao_bem_formada_def sessao_inicial_def)

end
